theory Spec2Isabelle
  imports Main
begin

section \<open>Data model of the agent protocol\<close>

text \<open>
  The two classes \<^verbatim>\<open>DialogBot\<close> (src/bots/dialogBot.js) and \<^verbatim>\<open>MainDialog\<close>
  (src/dialogs/mainDialog.js) read agent events as JavaScript objects tagged by a
  \<^verbatim>\<open>kind\<close> string. A part is a text part (the only kind with a \<^verbatim>\<open>text\<close>
  property), a file part (with an optional \<^verbatim>\<open>filename\<close>) or a part of another kind.
  Every property the code guards with a truthiness test before use is optional here.
  Strings are byte lists (UTF-8); the only string tests of the code are emptiness and
  \<^verbatim>\<open>includes\<close> of an ASCII needle.
\<close>

datatype part = TextPart string | FilePart "string option" | DataPart

record task_status =
  state :: string
  message :: "string option"

record artifact =
  artifactId :: string
  name :: "string option"
  parts :: "part list option"

record task =
  task_id :: string
  status :: task_status
  artifacts :: "artifact list option"

datatype agent_event =
    Message "part list option"
  | Task task
  | StatusUpdate task_status
  | ArtifactUpdate "artifact option"
  | OtherEvent

record send_params =
  messageId :: string
  userText :: "string option"

text \<open>
  Everything the code does to the outside world during one turn, in program order:
  \<^verbatim>\<open>sendActivity({type:'typing'})\<close>, \<^verbatim>\<open>sendActivity(text)\<close>,
  \<^verbatim>\<open>updateActivity\<close> on a handle (with the outcome the surface gave: \<open>False\<close> when
  it raised), \<^verbatim>\<open>setInterval\<close> and \<^verbatim>\<open>clearInterval\<close> of the typing timer, and the
  two transport calls. \<^verbatim>\<open>sendActivity\<close> is taken as total and as returning a handle,
  as the display interface of the specification (section 6) has it; the handle of a sent
  message is its position in the effect list.
\<close>

datatype effect =
    Typing
  | Send string
  | Update nat string bool
  | SetInterval
  | ClearInterval
  | SendMessageStream send_params
  | SendMessage send_params

fun is_update :: "effect \<Rightarrow> bool" where
  "is_update (Update h t b) = True"
| "is_update e = False"

fun is_send :: "effect \<Rightarrow> bool" where
  "is_send (Send t) = True"
| "is_send e = False"

fun is_failed_update :: "effect \<Rightarrow> bool" where
  "is_failed_update (Update h t b) = (\<not> b)"
| "is_failed_update e = False"

definition n_updates :: "effect list \<Rightarrow> nat" where
  "n_updates es = length (filter is_update es)"

definition n_sends :: "effect list \<Rightarrow> nat" where
  "n_sends es = length (filter is_send es)"

definition n_failed_updates :: "effect list \<Rightarrow> nat" where
  "n_failed_updates es = length (filter is_failed_update es)"

text \<open>JavaScript truthiness of an optional string: defined and not empty.\<close>

fun truthy :: "string option \<Rightarrow> bool" where
  "truthy None = False"
| "truthy (Some t) = (t \<noteq> [])"

text \<open>\<^verbatim>\<open>a || b\<close> on an optional string and a string.\<close>

fun or_else :: "string option \<Rightarrow> string \<Rightarrow> string" where
  "or_else None d = d"
| "or_else (Some t) d = (if t \<noteq> [] then t else d)"

text \<open>\<^verbatim>\<open>part.text\<close>: only a text part has the property.\<close>

fun part_text :: "part \<Rightarrow> string option" where
  "part_text (TextPart t) = Some t"
| "part_text p = None"

subsection \<open>The literals of the two files\<close>

text \<open>
  Every rendered text starts with a pictograph literal. The two files store these
  literals as different byte sequences, so they are a parameter of the shared code:
  one record per file, bytes as they stand in the file.
\<close>

record glyphs =
  robot :: string
  target :: string
  clip :: string
  page :: string
  folder :: string
  info :: string
  warning :: string
  hourglass :: string

definition DialogBot_glyphs :: glyphs where
  "DialogBot_glyphs = \<lparr>
     robot = [CHR 0xF0, CHR 0x9F, CHR 0xA4, CHR 0x96],
     target = [CHR 0xF0, CHR 0x9F, CHR 0x8E, CHR 0xAF],
     clip = [CHR 0xF0, CHR 0x9F, CHR 0x93, CHR 0x8E],
     page = [CHR 0xF0, CHR 0x9F, CHR 0x93, CHR 0x84],
     folder = [CHR 0xF0, CHR 0x9F, CHR 0x97, CHR 0x82, CHR 0xEF, CHR 0xB8, CHR 0x8F],
     info = [CHR 0xE2, CHR 0x84, CHR 0xB9, CHR 0xEF, CHR 0xB8, CHR 0x8F],
     warning = [CHR 0xE2, CHR 0x9A, CHR 0xA0, CHR 0xEF, CHR 0xB8, CHR 0x8F],
     hourglass = [CHR 0xE2, CHR 0x8F, CHR 0xB3] \<rparr>"

definition MainDialog_glyphs :: glyphs where
  "MainDialog_glyphs = \<lparr>
     robot = [CHR 0xC4, CHR 0x9F, CHR 0xC5, CHR 0xB8, CHR 0xC2, CHR 0xA4, CHR 0xE2, CHR 0x80, CHR 0x93],
     target = [CHR 0xC4, CHR 0x9F, CHR 0xC5, CHR 0xB8, CHR 0xC2, CHR 0xAF],
     clip = [CHR 0xC4, CHR 0x9F, CHR 0xC5, CHR 0xB8, CHR 0xE2, CHR 0x80, CHR 0x9C],
     page = [CHR 0xC4, CHR 0x9F, CHR 0xC5, CHR 0xB8, CHR 0xE2, CHR 0x80, CHR 0x9C, CHR 0xE2, CHR 0x80, CHR 0x9E],
     folder = [CHR 0xC4, CHR 0x9F, CHR 0xC5, CHR 0xB8, CHR 0xE2, CHR 0x80, CHR 0x94, CHR 0xE2, CHR 0x80, CHR 0x9A,
               CHR 0xC3, CHR 0xAF, CHR 0xC2, CHR 0xB8],
     info = [CHR 0xC3, CHR 0xA2, CHR 0xE2, CHR 0x80, CHR 0x9E, CHR 0xC2, CHR 0xB9, CHR 0xC3, CHR 0xAF, CHR 0xC2, CHR 0xB8],
     warning = [CHR 0xC3, CHR 0xA2, CHR 0xC5, CHR 0xA1, CHR 0xC2, CHR 0xA0, CHR 0xC3, CHR 0xAF, CHR 0xC2, CHR 0xB8],
     hourglass = [CHR 0xC3, CHR 0xA2, CHR 0xC2, CHR 0xB3] \<rparr>"

section \<open>The streaming reconciliation loop\<close>

text \<open>
  The local variables of \<^verbatim>\<open>handleStreamingResponse\<close>, together with the typing timer
  (\<open>typingInterval\<close> is \<open>True\<close> while the interval is armed) and the effects performed
  so far. The timer's callback sends a typing indicator when it fires and
  \<^verbatim>\<open>isCompleted\<close> is false; when it fires is a matter of real time, so the model
  keeps what decides whether it can: the armed timer and the flag.
\<close>

record recon =
  accumulatedText :: string
  currentTask :: "task option"
  receivedEvents :: bool
  lastArtifacts :: "artifact list"
  messageActivity :: "nat option"
  updateCount :: nat
  isCompleted :: bool
  typingInterval :: bool
  effects :: "effect list"

definition typingLive :: "recon \<Rightarrow> bool" where
  "typingLive s = (typingInterval s \<and> \<not> isCompleted s)"

text \<open>
  The display surface decides whether a call of \<^verbatim>\<open>updateActivity\<close> succeeds: \<open>ok k\<close>
  is the outcome of the call number \<open>k\<close> (from 0) of the turn.
\<close>

definition updateActivity :: "(nat \<Rightarrow> bool) \<Rightarrow> nat \<Rightarrow> string \<Rightarrow> effect list \<Rightarrow> bool \<times> effect list" where
  "updateActivity ok h t es = (ok (n_updates es), es @ [Update h t (ok (n_updates es))])"

text \<open>
  The block that follows every \<^verbatim>\<open>accumulatedText += ...; updateCount++\<close>
  (dialogBot.js 158-178 and 222-239, mainDialog.js 602-622 and 666-683; the four copies
  are the same code): create the message on the first contribution, update it in place
  on every fifth, swallow a failed update.
\<close>

definition contribute :: "glyphs \<Rightarrow> (nat \<Rightarrow> bool) \<Rightarrow> string \<Rightarrow> recon \<Rightarrow> recon" where
  "contribute g ok t s =
     (let s1 = s\<lparr>accumulatedText := accumulatedText s @ t, updateCount := updateCount s + 1\<rparr> in
      case messageActivity s1 of
        None \<Rightarrow>
          s1\<lparr>messageActivity := Some (length (effects s1)),
             effects := effects s1 @ [Send (robot g @ '' '' @ accumulatedText s1)]\<rparr>
      | Some h \<Rightarrow>
          if updateCount s1 mod 5 = 0
          then s1\<lparr>effects := snd (updateActivity ok h (robot g @ '' '' @ accumulatedText s1) (effects s1))\<rparr>
          else s1)"

text \<open>The body of the loop over an artifact's parts (dialogBot.js 220-241).\<close>

fun artifactPart :: "glyphs \<Rightarrow> (nat \<Rightarrow> bool) \<Rightarrow> part \<Rightarrow> recon \<Rightarrow> recon" where
  "artifactPart g ok (TextPart t) s = (if t \<noteq> [] then contribute g ok t s else s)"
| "artifactPart g ok p s = s"

fun artifactParts :: "glyphs \<Rightarrow> (nat \<Rightarrow> bool) \<Rightarrow> part list \<Rightarrow> recon \<Rightarrow> recon" where
  "artifactParts g ok [] s = s"
| "artifactParts g ok (p # ps) s = artifactParts g ok ps (artifactPart g ok p s)"

text \<open>
  One iteration of \<^verbatim>\<open>for await (const event of stream)\<close> (dialogBot.js 151-246,
  mainDialog.js 595-690). The task branch assigns \<^verbatim>\<open>lastArtifacts = event.artifacts\<close>;
  the array is then shared with the task object, whose \<^verbatim>\<open>artifacts\<close> property is
  never read again, so the sharing is not observable.
\<close>

fun processEvent :: "glyphs \<Rightarrow> (nat \<Rightarrow> bool) \<Rightarrow> agent_event \<Rightarrow> recon \<Rightarrow> recon" where
  "processEvent g ok (Message ps) s =
     (let s0 = s\<lparr>receivedEvents := True\<rparr> in
      case ps of
        None \<Rightarrow> s0
      | Some [] \<Rightarrow> s0
      | Some (p # rest) \<Rightarrow>
          (case part_text p of
             None \<Rightarrow> s0
           | Some t \<Rightarrow> if t \<noteq> [] then contribute g ok t s0 else s0))"
| "processEvent g ok (Task tk) s =
     (let s0 = s\<lparr>receivedEvents := True\<rparr>;
          s1 = s0\<lparr>currentTask := Some tk\<rparr> in
      case artifacts tk of
        None \<Rightarrow> s1
      | Some arts \<Rightarrow> if length arts > 0 then s1\<lparr>lastArtifacts := arts\<rparr> else s1)"
| "processEvent g ok (StatusUpdate st) s =
     (let s0 = s\<lparr>receivedEvents := True\<rparr>;
          s1 = (case currentTask s0 of
                  None \<Rightarrow> s0
                | Some tk \<Rightarrow> s0\<lparr>currentTask := Some (tk\<lparr>status := st\<rparr>)\<rparr>) in
      if state st = ''completed''
      then
        (let s2 = s1\<lparr>isCompleted := True, typingInterval := False,
                     effects := effects s1 @ [ClearInterval]\<rparr> in
         case messageActivity s2 of
           None \<Rightarrow> s2
         | Some h \<Rightarrow>
             if accumulatedText s2 \<noteq> []
             then s2\<lparr>effects := snd (updateActivity ok h (robot g @ '' '' @ accumulatedText s2) (effects s2))\<rparr>
             else s2)
      else s1)"
| "processEvent g ok (ArtifactUpdate a) s =
     (let s0 = s\<lparr>receivedEvents := True\<rparr> in
      case a of
        None \<Rightarrow> s0
      | Some art \<Rightarrow>
          (case parts art of
             None \<Rightarrow> s0
           | Some ps \<Rightarrow>
               (let s1 = artifactParts g ok ps s0 in
                s1\<lparr>lastArtifacts := lastArtifacts s1 @ [art]\<rparr>)))"
| "processEvent g ok OtherEvent s = s\<lparr>receivedEvents := True\<rparr>"

fun consume :: "glyphs \<Rightarrow> (nat \<Rightarrow> bool) \<Rightarrow> agent_event list \<Rightarrow> recon \<Rightarrow> recon" where
  "consume g ok [] s = s"
| "consume g ok (e # es) s = consume g ok es (processEvent g ok e s)"

text \<open>
  The state at the head of the loop: the first typing indicator is sent, the stream is
  opened and the timer is armed (dialogBot.js 126-148).
\<close>

definition startStreaming :: "send_params \<Rightarrow> recon" where
  "startStreaming sp = \<lparr>
     accumulatedText = [], currentTask = None, receivedEvents = False, lastArtifacts = [],
     messageActivity = None, updateCount = 0, isCompleted = False, typingInterval = True,
     effects = [Typing, SendMessageStream sp, SetInterval] \<rparr>"

text \<open>The \<^verbatim>\<open>finally\<close> block of the loop (dialogBot.js 247-251).\<close>

definition stopTyping :: "recon \<Rightarrow> recon" where
  "stopTyping s = s\<lparr>effects := effects s @ [ClearInterval], typingInterval := False, isCompleted := True\<rparr>"

section \<open>Finalization and the synchronous fallback\<close>

text \<open>
  Rendering of artifacts. \<^verbatim>\<open>DialogBot\<close> has the loops inline (dialogBot.js 282-293
  and 340-351), \<^verbatim>\<open>MainDialog\<close> calls \<^verbatim>\<open>displayTaskArtifacts\<close> (mainDialog.js 805-819).
\<close>

fun DialogBot_renderPart :: "part \<Rightarrow> effect list" where
  "DialogBot_renderPart (TextPart t) = [Send (page DialogBot_glyphs @ '' '' @ t)]"
| "DialogBot_renderPart (FilePart fn) =
     [Send (folder DialogBot_glyphs @ '' File: '' @ or_else fn ''unnamed'')]"
| "DialogBot_renderPart DataPart = []"

definition DialogBot_renderArtifact :: "artifact \<Rightarrow> effect list" where
  "DialogBot_renderArtifact a =
     Send (clip DialogBot_glyphs @ '' '' @ or_else (name a) (artifactId a))
     # (case parts a of None \<Rightarrow> [] | Some ps \<Rightarrow> concat (map DialogBot_renderPart ps))"

definition DialogBot_renderArtifacts :: "artifact list \<Rightarrow> effect list" where
  "DialogBot_renderArtifacts arts = concat (map DialogBot_renderArtifact arts)"

fun MainDialog_renderPart :: "part \<Rightarrow> effect list" where
  "MainDialog_renderPart (TextPart t) = [Send (page MainDialog_glyphs @ '' '' @ t)]"
| "MainDialog_renderPart (FilePart fn) =
     [Send (folder MainDialog_glyphs @ '' File: '' @ or_else fn ''unnamed file'')]"
| "MainDialog_renderPart DataPart = []"

definition MainDialog_renderArtifact :: "artifact \<Rightarrow> effect list" where
  "MainDialog_renderArtifact a =
     Send (clip MainDialog_glyphs @ '' **'' @ or_else (name a) (artifactId a) @ ''**'')
     # (case parts a of None \<Rightarrow> [] | Some ps \<Rightarrow> concat (map MainDialog_renderPart ps))"

definition MainDialog_displayTaskArtifacts :: "artifact list \<Rightarrow> effect list" where
  "MainDialog_displayTaskArtifacts arts = concat (map MainDialog_renderArtifact arts)"

text \<open>
  The code after the loop (dialogBot.js 256-302, mainDialog.js 700-735), the same in
  both files up to the literals and the artifact renderer. The result is the whole
  effect list of the invocation.
\<close>

definition finishText :: "glyphs \<Rightarrow> (nat \<Rightarrow> bool) \<Rightarrow> recon \<Rightarrow> effect list" where
  "finishText g ok s =
     (let t = robot g @ '' '' @ accumulatedText s in
      case messageActivity s of
        Some h \<Rightarrow>
          (let r = updateActivity ok h t (effects s) in
           if fst r then snd r else snd r @ [Send t])
      | None \<Rightarrow> effects s @ [Send t])"

definition finishTask :: "glyphs \<Rightarrow> (artifact list \<Rightarrow> effect list) \<Rightarrow> task \<Rightarrow> recon \<Rightarrow> effect list" where
  "finishTask g render tk s =
     effects s
     @ [Send (target g @ '' Task '' @ task_id tk @ '': '' @ state (status tk))]
     @ (if length (lastArtifacts s) > 0 then render (lastArtifacts s) else [])
     @ (case message (status tk) of
          None \<Rightarrow> []
        | Some m \<Rightarrow> if m \<noteq> [] then [Send (info g @ '' '' @ m)] else [])"

definition finish :: "glyphs \<Rightarrow> (artifact list \<Rightarrow> effect list) \<Rightarrow> (nat \<Rightarrow> bool) \<Rightarrow> recon \<Rightarrow> effect list" where
  "finish g render ok s =
     (if accumulatedText s \<noteq> [] then finishText g ok s
      else case currentTask s of
        Some tk \<Rightarrow> finishTask g render tk s
      | None \<Rightarrow>
          if \<not> receivedEvents s
          then effects s @ [Send (warning g @ '' No response received from agent.'')]
          else effects s)"

text \<open>
  The answer of the synchronous call \<^verbatim>\<open>a2aClient.sendMessage\<close>: it raises, or it
  returns an error response, or a result, which is a message, a task or of another
  kind. A message result has its \<^verbatim>\<open>parts\<close> array (the code indexes it unguarded).
\<close>

datatype agent_result = MessageResult "part list" | TaskResult task | OtherResult

datatype send_outcome = Throws string | ErrorResponse string | Result agent_result

definition statusMessage :: "glyphs \<Rightarrow> task_status \<Rightarrow> effect list" where
  "statusMessage g st =
     (case message st of
        None \<Rightarrow> []
      | Some m \<Rightarrow> if m \<noteq> [] then [Send (info g @ '' '' @ m)] else [])"

definition pendingNotice :: "glyphs \<Rightarrow> task_status \<Rightarrow> effect list" where
  "pendingNotice g st =
     (if state st \<noteq> ''completed'' \<and> state st \<noteq> ''failed'' \<and> state st \<noteq> ''canceled''
      then [Send (hourglass g @ '' Task is '' @ state st @ ''. The agent will notify when complete.'')]
      else [])"

definition initialArtifacts :: "(artifact list \<Rightarrow> effect list) \<Rightarrow> task \<Rightarrow> effect list" where
  "initialArtifacts render tk =
     (case artifacts tk of
        None \<Rightarrow> []
      | Some arts \<Rightarrow> if length arts > 0 then render arts else [])"

definition firstPartText :: "part list \<Rightarrow> string" where
  "firstPartText ps = or_else (case ps of [] \<Rightarrow> None | p # rest \<Rightarrow> part_text p) ''No text content''"

text \<open>\<^verbatim>\<open>DialogBot.handleRegularResponse\<close> (dialogBot.js 320-364).\<close>

fun DialogBot_renderResult :: "agent_result \<Rightarrow> effect list" where
  "DialogBot_renderResult (MessageResult ps) =
     [Send (robot DialogBot_glyphs @ '' '' @ firstPartText ps)]"
| "DialogBot_renderResult (TaskResult tk) =
     [Send (target DialogBot_glyphs @ '' Task: '' @ task_id tk @ '' ('' @ state (status tk) @ '')'')]
     @ initialArtifacts DialogBot_renderArtifacts tk
     @ statusMessage DialogBot_glyphs (status tk)
     @ pendingNotice DialogBot_glyphs (status tk)"
| "DialogBot_renderResult OtherResult = []"

fun DialogBot_handleRegularResponse :: "send_params \<Rightarrow> send_outcome \<Rightarrow> (string + unit) \<times> effect list" where
  "DialogBot_handleRegularResponse sp (Throws m) = (Inl m, [Typing, SendMessage sp])"
| "DialogBot_handleRegularResponse sp (ErrorResponse m) = (Inl m, [Typing, SendMessage sp])"
| "DialogBot_handleRegularResponse sp (Result r) =
     (Inr (), [Typing, SendMessage sp] @ DialogBot_renderResult r)"

text \<open>\<^verbatim>\<open>MainDialog.handleRegularResponse\<close> (mainDialog.js 753-796).\<close>

fun MainDialog_renderResult :: "agent_result \<Rightarrow> effect list" where
  "MainDialog_renderResult (MessageResult ps) =
     [Send (robot MainDialog_glyphs @ '' '' @ firstPartText ps)]"
| "MainDialog_renderResult (TaskResult tk) =
     [Send (target MainDialog_glyphs @ '' Task: '' @ task_id tk @ '' - '' @ state (status tk))]
     @ initialArtifacts MainDialog_displayTaskArtifacts tk
     @ statusMessage MainDialog_glyphs (status tk)
     @ pendingNotice MainDialog_glyphs (status tk)"
| "MainDialog_renderResult OtherResult = []"

fun MainDialog_handleRegularResponse :: "send_params \<Rightarrow> send_outcome \<Rightarrow> (string + unit) \<times> effect list" where
  "MainDialog_handleRegularResponse sp (Throws m) = (Inl m, [Typing, SendMessage sp])"
| "MainDialog_handleRegularResponse sp (ErrorResponse m) = (Inl m, [Typing, SendMessage sp])"
| "MainDialog_handleRegularResponse sp (Result r) =
     (Inr (), [Typing, SendMessage sp] @ MainDialog_renderResult r)"

section \<open>The whole reconciliation\<close>

text \<open>
  A stream yields its events and then either ends or raises (with the error's message).
  \<^verbatim>\<open>handleStreamingResponse\<close> (dialogBot.js 121-312, mainDialog.js 565-745): run the
  loop, run the \<^verbatim>\<open>finally\<close> block, then finalize; when the stream raised, the outer
  \<^verbatim>\<open>catch\<close> calls the synchronous fallback with the same parameters and lets its
  failure through to the caller.
\<close>

type_synonym agent_stream = "agent_event list \<times> string option"

definition afterLoop :: "glyphs \<Rightarrow> (nat \<Rightarrow> bool) \<Rightarrow> send_params \<Rightarrow> agent_event list \<Rightarrow> recon" where
  "afterLoop g ok sp evs = stopTyping (consume g ok evs (startStreaming sp))"

definition DialogBot_handleStreamingResponse ::
  "(nat \<Rightarrow> bool) \<Rightarrow> send_params \<Rightarrow> agent_stream \<Rightarrow> send_outcome \<Rightarrow> (string + unit) \<times> effect list" where
  "DialogBot_handleStreamingResponse ok sp str reply =
     (let s = afterLoop DialogBot_glyphs ok sp (fst str) in
      case snd str of
        None \<Rightarrow> (Inr (), finish DialogBot_glyphs DialogBot_renderArtifacts ok s)
      | Some err \<Rightarrow>
          (fst (DialogBot_handleRegularResponse sp reply),
           effects s @ snd (DialogBot_handleRegularResponse sp reply)))"

definition MainDialog_handleStreamingResponse ::
  "(nat \<Rightarrow> bool) \<Rightarrow> send_params \<Rightarrow> agent_stream \<Rightarrow> send_outcome \<Rightarrow> (string + unit) \<times> effect list" where
  "MainDialog_handleStreamingResponse ok sp str reply =
     (let s = afterLoop MainDialog_glyphs ok sp (fst str) in
      case snd str of
        None \<Rightarrow> (Inr (), finish MainDialog_glyphs MainDialog_displayTaskArtifacts ok s)
      | Some err \<Rightarrow>
          (fst (MainDialog_handleRegularResponse sp reply),
           effects s @ snd (MainDialog_handleRegularResponse sp reply)))"

text \<open>
  What the specification says a message event contributes: the content of every text
  part of the event, in order, one count per text part.
\<close>

definition spec_message_text :: "part list \<Rightarrow> string" where
  "spec_message_text ps = concat (map (\<lambda>p. case part_text p of None \<Rightarrow> [] | Some t \<Rightarrow> t) ps)"

definition spec_message_count :: "part list \<Rightarrow> nat" where
  "spec_message_count ps = length (filter (\<lambda>p. part_text p \<noteq> None) ps)"

definition sp0 :: send_params where
  "sp0 = \<lparr>messageId = ''m1'', userText = Some ''hello''\<rparr>"

definition always_ok :: "nat \<Rightarrow> bool" where
  "always_ok k = True"

definition never_ok :: "nat \<Rightarrow> bool" where
  "never_ok k = False"

text \<open>Inputs used in the concrete evaluations below.\<close>

definition msg :: "string \<Rightarrow> agent_event" where
  "msg t = Message (Some [TextPart t])"

definition status_ev :: "string \<Rightarrow> agent_event" where
  "status_ev st = StatusUpdate \<lparr>state = st, message = None\<rparr>"

definition art :: "string \<Rightarrow> part list option \<Rightarrow> artifact" where
  "art i ps = \<lparr>artifactId = i, name = None, parts = ps\<rparr>"

definition task_ev :: "string \<Rightarrow> artifact list option \<Rightarrow> agent_event" where
  "task_ev i arts = Task \<lparr>task_id = i, status = \<lparr>state = ''working'', message = None\<rparr>, artifacts = arts\<rparr>"

text \<open>Counting the status updates "completed" of a stream.\<close>

fun is_completed_status :: "agent_event \<Rightarrow> bool" where
  "is_completed_status (StatusUpdate st) = (state st = ''completed'')"
| "is_completed_status e = False"

definition n_completed :: "agent_event list \<Rightarrow> nat" where
  "n_completed evs = length (filter is_completed_status evs)"

text \<open>An effect that is an update-in-place targets the handle \<open>h\<close>.\<close>

fun updates_to :: "nat \<Rightarrow> effect \<Rightarrow> bool" where
  "updates_to h (Update h' t b) = (h' = h)"
| "updates_to h e = True"

text \<open>
  The invariant of the loop: no message is created while there is no text, and once
  there is text exactly one message is created, its handle is the one kept in
  \<^verbatim>\<open>messageActivity\<close>, and every update so far went to it.
\<close>

definition loop_inv :: "recon \<Rightarrow> bool" where
  "loop_inv s =
     (case messageActivity s of
        None \<Rightarrow> accumulatedText s = [] \<and> n_sends (effects s) = 0 \<and> n_updates (effects s) = 0
      | Some h \<Rightarrow>
          accumulatedText s \<noteq> [] \<and> n_sends (effects s) = 1 \<and> h < length (effects s)
          \<and> is_send (effects s ! h) \<and> list_all (updates_to h) (effects s))"

section \<open>The callers: routing a user message\<close>

text \<open>
  The turn-scoped storage \<^verbatim>\<open>context.turnState\<close> with the keys the code reads, the text
  of the incoming activity, and the conversation state behind the key
  \<^verbatim>\<open>conversationState\<close> (absent when the key is not set), whose \<^verbatim>\<open>a2aState\<close>
  property is the persisted copy of the session. The client object stands for what the
  remote agent does with the message of this turn: the stream it yields and the answer
  of the synchronous call.
\<close>

record a2a_client =
  agentStream :: agent_stream
  agentReply :: send_outcome

record a2a_state =
  savedAccessToken :: "string option"
  savedServerUrl :: "string option"

record turn_context =
  activityText :: "string option"
  accessToken :: "string option"
  a2aClient :: "a2a_client option"
  a2aServerUrl :: "string option"
  conversationState :: "a2a_state option"

text \<open>
  \<^verbatim>\<open>String.prototype.includes\<close>, \<^verbatim>\<open>toLowerCase\<close> and \<^verbatim>\<open>trim\<close> on UTF-8 byte
  strings. \<^verbatim>\<open>toLowerCase\<close> is only ever compared with the words "login", "logout" and
  "exit": it maps the ASCII capitals, and leaves every other byte as it is, since the
  lower case of a character outside ASCII is outside ASCII again, the Kelvin sign apart,
  whose lower case "k" is in none of the three words. \<^verbatim>\<open>trim\<close> removes, at both ends,
  every code point that ECMAScript counts as white space or as a line terminator:
  U+0009 to U+000D, U+0020, U+00A0, U+1680, U+2000 to U+200A, U+2028, U+2029, U+202F,
  U+205F, U+3000 and U+FEFF, here in their UTF-8 encodings. In well-formed UTF-8 a
  string ends with the bytes of one of these encodings only when it ends with that
  code point, because the first byte of each is not a continuation byte.
\<close>

fun str_includes :: "string \<Rightarrow> string \<Rightarrow> bool" where
  "str_includes [] needle = (needle = [])"
| "str_includes (c # cs) needle = (take (length needle) (c # cs) = needle \<or> str_includes cs needle)"

definition toLowerCase :: "string \<Rightarrow> string" where
  "toLowerCase s =
     map (\<lambda>c. case map_of (zip ''ABCDEFGHIJKLMNOPQRSTUVWXYZ'' ''abcdefghijklmnopqrstuvwxyz'') c of
                 None \<Rightarrow> c | Some d \<Rightarrow> d) s"

definition white_space :: "string list" where
  "white_space =
     [[CHR 0x09], [CHR 0x0A], [CHR 0x0B], [CHR 0x0C], [CHR 0x0D], [CHR 0x20],
      [CHR 0xC2, CHR 0xA0],
      [CHR 0xE1, CHR 0x9A, CHR 0x80],
      [CHR 0xE2, CHR 0x80, CHR 0x80], [CHR 0xE2, CHR 0x80, CHR 0x81],
      [CHR 0xE2, CHR 0x80, CHR 0x82], [CHR 0xE2, CHR 0x80, CHR 0x83],
      [CHR 0xE2, CHR 0x80, CHR 0x84], [CHR 0xE2, CHR 0x80, CHR 0x85],
      [CHR 0xE2, CHR 0x80, CHR 0x86], [CHR 0xE2, CHR 0x80, CHR 0x87],
      [CHR 0xE2, CHR 0x80, CHR 0x88], [CHR 0xE2, CHR 0x80, CHR 0x89],
      [CHR 0xE2, CHR 0x80, CHR 0x8A],
      [CHR 0xE2, CHR 0x80, CHR 0xA8], [CHR 0xE2, CHR 0x80, CHR 0xA9],
      [CHR 0xE2, CHR 0x80, CHR 0xAF],
      [CHR 0xE2, CHR 0x81, CHR 0x9F],
      [CHR 0xE3, CHR 0x80, CHR 0x80],
      [CHR 0xEF, CHR 0xBB, CHR 0xBF]]"

fun trimStart :: "string \<Rightarrow> string" where
  "trimStart (a # b # c # cs) =
     (if [a] \<in> set white_space then trimStart (b # c # cs)
      else if [a, b] \<in> set white_space then trimStart (c # cs)
      else if [a, b, c] \<in> set white_space then trimStart cs
      else a # b # c # cs)"
| "trimStart [a, b] =
     (if [a] \<in> set white_space then trimStart [b]
      else if [a, b] \<in> set white_space then []
      else [a, b])"
| "trimStart [a] = (if [a] \<in> set white_space then [] else [a])"
| "trimStart [] = []"

text \<open>The same from the other end, on the reversed string.\<close>

fun trimEndRev :: "string \<Rightarrow> string" where
  "trimEndRev (a # b # c # cs) =
     (if [a] \<in> set white_space then trimEndRev (b # c # cs)
      else if [b, a] \<in> set white_space then trimEndRev (c # cs)
      else if [c, b, a] \<in> set white_space then trimEndRev cs
      else a # b # c # cs)"
| "trimEndRev [a, b] =
     (if [a] \<in> set white_space then trimEndRev [b]
      else if [b, a] \<in> set white_space then []
      else [a, b])"
| "trimEndRev [a] = (if [a] \<in> set white_space then [] else [a])"
| "trimEndRev [] = []"

definition trimEnd :: "string \<Rightarrow> string" where
  "trimEnd s = rev (trimEndRev (rev s))"

definition trim :: "string \<Rightarrow> string" where
  "trim s = trimEnd (trimStart s)"

text \<open>The test both \<^verbatim>\<open>catch\<close> blocks of \<^verbatim>\<open>DialogBot\<close> apply to an error's message.\<close>

definition is_auth_error :: "string \<Rightarrow> bool" where
  "is_auth_error m = (str_includes m ''401'' \<or> str_includes m ''Unauthorized'')"

text \<open>\<^verbatim>\<open>DialogBot.routeToA2AAgent\<close> (dialogBot.js 90-113); \<open>mid\<close> is the fresh message id.\<close>

definition DialogBot_routeToA2AAgent ::
  "(nat \<Rightarrow> bool) \<Rightarrow> string \<Rightarrow> turn_context \<Rightarrow> a2a_client \<Rightarrow> (string + unit) \<times> effect list" where
  "DialogBot_routeToA2AAgent ok mid ctx client =
     (let sp = \<lparr>messageId = mid, userText = activityText ctx\<rparr>;
          r = DialogBot_handleStreamingResponse ok sp (agentStream client) (agentReply client) in
      case fst r of
        Inr u \<Rightarrow> (Inr (), snd r)
      | Inl m \<Rightarrow>
          if is_auth_error m
          then (Inl ''401 Unauthorized - Authentication required'', snd r)
          else (Inl m, snd r))"

text \<open>
  \<^verbatim>\<open>MainDialog.restoreA2AState\<close> and \<^verbatim>\<open>persistA2AState\<close> (mainDialog.js 182-245).
  \<open>connect url token\<close> stands for \<^verbatim>\<open>A2AClient.fromCardUrl\<close> followed by
  \<^verbatim>\<open>getAgentCard\<close>: the client, or \<open>None\<close> when the network call raises (the
  \<^verbatim>\<open>catch\<close> then keeps what was restored so far).
\<close>

definition restoreA2AState :: "(string \<Rightarrow> string \<Rightarrow> a2a_client option) \<Rightarrow> turn_context \<Rightarrow> turn_context" where
  "restoreA2AState connect ctx =
     (case conversationState ctx of
        None \<Rightarrow> ctx
      | Some st \<Rightarrow>
          (case (savedAccessToken st, savedServerUrl st) of
             (Some tok, Some url) \<Rightarrow>
               if tok \<noteq> [] \<and> url \<noteq> []
               then
                 (let c1 = ctx\<lparr>accessToken := Some tok, a2aServerUrl := Some url\<rparr> in
                  case connect url tok of
                    None \<Rightarrow> c1
                  | Some client \<Rightarrow> c1\<lparr>a2aClient := Some client\<rparr>)
               else ctx
           | _ \<Rightarrow> ctx))"

definition persistA2AState :: "turn_context \<Rightarrow> turn_context" where
  "persistA2AState ctx =
     (case conversationState ctx of
        None \<Rightarrow> ctx
      | Some st \<Rightarrow>
          if truthy (accessToken ctx) \<and> truthy (a2aServerUrl ctx)
          then ctx\<lparr>conversationState :=
                 Some \<lparr>savedAccessToken = accessToken ctx, savedServerUrl = a2aServerUrl ctx\<rparr>\<rparr>
          else ctx)"

text \<open>
  \<^verbatim>\<open>MainDialog.run\<close> (mainDialog.js 58-72). The dialog engine between the two calls
  (\<^verbatim>\<open>continueDialog\<close>, \<^verbatim>\<open>beginDialog\<close> and the prompts they run) belongs to the
  framework: it is the parameter \<open>eng\<close>, which maps the turn context to the context it
  leaves and to what it showed.
\<close>

definition MainDialog_run ::
  "(turn_context \<Rightarrow> turn_context \<times> effect list) \<Rightarrow> (string \<Rightarrow> string \<Rightarrow> a2a_client option)
   \<Rightarrow> turn_context \<Rightarrow> turn_context \<times> effect list" where
  "MainDialog_run eng connect ctx =
     (let r = eng (restoreA2AState connect ctx) in (persistA2AState (fst r), snd r))"

text \<open>\<^verbatim>\<open>DialogBot.handleMessage\<close> (dialogBot.js 43-83).\<close>

datatype turn_outcome = RoutedToAgent | ErrorReported | DialogFlow

definition isDialogCommand :: "string option \<Rightarrow> bool" where
  "isDialogCommand t =
     (case t of
        None \<Rightarrow> False
      | Some s \<Rightarrow> toLowerCase (trim s) \<in> set [''login'', ''logout'', ''exit''])"

definition DialogBot_handleMessage ::
  "(turn_context \<Rightarrow> turn_context \<times> effect list) \<Rightarrow> (string \<Rightarrow> string \<Rightarrow> a2a_client option)
   \<Rightarrow> (nat \<Rightarrow> bool) \<Rightarrow> string \<Rightarrow> turn_context \<Rightarrow> turn_outcome \<times> turn_context \<times> effect list" where
  "DialogBot_handleMessage eng connect ok mid ctx =
     (case a2aClient ctx of
        Some client \<Rightarrow>
          if \<not> isDialogCommand (activityText ctx) \<and> truthy (accessToken ctx)
          then
            (let r = DialogBot_routeToA2AAgent ok mid ctx client in
             case fst r of
               Inr u \<Rightarrow> (RoutedToAgent, ctx, snd r)
             | Inl m \<Rightarrow>
                 if is_auth_error m
                 then
                   (let d = MainDialog_run eng connect (ctx\<lparr>accessToken := None, a2aClient := None\<rparr>) in
                    (DialogFlow, fst d, snd r @ snd d))
                 else
                   (ErrorReported, ctx,
                    snd r @ [Send (warning DialogBot_glyphs @ '' Error communicating with agent: '' @ m)]))
          else
            (let d = MainDialog_run eng connect ctx in (DialogFlow, fst d, snd d))
      | None \<Rightarrow>
          (let d = MainDialog_run eng connect ctx in (DialogFlow, fst d, snd d)))"






text \<open>The transport calls among the effects, in order.\<close>

fun is_transport :: "effect \<Rightarrow> bool" where
  "is_transport (SendMessageStream sp) = True"
| "is_transport (SendMessage sp) = True"
| "is_transport e = False"

definition transport_calls :: "effect list \<Rightarrow> effect list" where
  "transport_calls es = filter is_transport es"

text \<open>Events that carry no text: what the two text guards of the loop let through.\<close>

fun carries_text :: "part \<Rightarrow> bool" where
  "carries_text (TextPart t) = (t \<noteq> [])"
| "carries_text p = False"

fun textless :: "agent_event \<Rightarrow> bool" where
  "textless (Message ps) = (case ps of Some (p # rest) \<Rightarrow> \<not> carries_text p | _ \<Rightarrow> True)"
| "textless (ArtifactUpdate a) =
     (case a of
        None \<Rightarrow> True
      | Some ar \<Rightarrow> (case parts ar of None \<Rightarrow> True | Some ps \<Rightarrow> list_all (\<lambda>p. \<not> carries_text p) ps))"
| "textless e = True"









text \<open>
  Two turns used in the concrete evaluations: an agent that rejects the token on both
  paths, with the session also persisted in the conversation state, and an agent whose
  stream breaks and whose synchronous call fails for another reason. \<open>reconnect\<close> is a
  network on which the client can be recreated; \<open>signInPrompt\<close> is a dialog engine that
  shows the sign-in prompt and leaves the turn state alone.
\<close>

definition client401 :: a2a_client where
  "client401 = \<lparr>agentStream = ([], Some ''HTTP 401 Unauthorized''), agentReply = Throws ''HTTP 401 Unauthorized''\<rparr>"

definition ctx401 :: turn_context where
  "ctx401 = \<lparr>activityText = Some ''hello'', accessToken = Some ''tok'', a2aClient = Some client401,
     a2aServerUrl = Some ''url'',
     conversationState = Some \<lparr>savedAccessToken = Some ''tok'', savedServerUrl = Some ''url''\<rparr>\<rparr>"

definition reconnect :: "string \<Rightarrow> string \<Rightarrow> a2a_client option" where
  "reconnect url tok = Some client401"

definition signInPrompt :: "turn_context \<Rightarrow> turn_context \<times> effect list" where
  "signInPrompt ctx = (ctx, [Send ''Please Sign In''])"







section \<open>Message events\<close>

text \<open>
  C1 (as stated): every text part of a message event is appended and counted. The code
  reads \<^verbatim>\<open>event.parts[0]\<close> only: on a message with the two text parts "a" and "b" it
  appends "a" and counts one contribution.
\<close>

theorem C1_message_second_part_dropped:
  "accumulatedText (processEvent DialogBot_glyphs always_ok
      (Message (Some [TextPart ''a'', TextPart ''b''])) (startStreaming sp0)) = ''a''
   \<and> updateCount (processEvent DialogBot_glyphs always_ok
      (Message (Some [TextPart ''a'', TextPart ''b''])) (startStreaming sp0)) = 1
   \<and> accumulatedText (startStreaming sp0) @ spec_message_text [TextPart ''a'', TextPart ''b''] = ''ab''
   \<and> updateCount (startStreaming sp0) + spec_message_count [TextPart ''a'', TextPart ''b''] = 2
   \<and> accumulatedText (processEvent DialogBot_glyphs always_ok
      (Message (Some [TextPart ''a'', TextPart ''b''])) (startStreaming sp0))
     \<noteq> accumulatedText (startStreaming sp0) @ spec_message_text [TextPart ''a'', TextPart ''b'']
   \<and> updateCount (processEvent DialogBot_glyphs always_ok
      (Message (Some [TextPart ''a'', TextPart ''b''])) (startStreaming sp0))
     \<noteq> updateCount (startStreaming sp0) + spec_message_count [TextPart ''a'', TextPart ''b'']"
  by (simp add: contribute_def startStreaming_def spec_message_text_def spec_message_count_def)

text \<open>
  C1 (amended): a message event contributes the text of its first part only. When the
  first part is a text part with non-empty content, that content is appended and the
  count goes up by exactly one, whatever parts follow; otherwise neither changes.
\<close>

theorem C1_message_first_part_only:
  "accumulatedText (processEvent g ok (Message ps) s) =
     accumulatedText s @ (case ps of Some (TextPart t # rest) \<Rightarrow> t | _ \<Rightarrow> [])
   \<and> updateCount (processEvent g ok (Message ps) s) =
     updateCount s + (case ps of Some (TextPart t # rest) \<Rightarrow> (if t \<noteq> [] then 1 else 0) | _ \<Rightarrow> 0)"
  by (auto simp: contribute_def updateActivity_def Let_def
           split: option.splits list.splits part.splits)

theorem C1_message_first_part_only_witness:
  "accumulatedText (processEvent MainDialog_glyphs always_ok
      (Message (Some [TextPart ''a'', TextPart ''b''])) (startStreaming sp0)) = ''a''
   \<and> updateCount (processEvent MainDialog_glyphs always_ok
      (Message (Some [FilePart None, TextPart ''b''])) (startStreaming sp0)) = 0"
  using C1_message_first_part_only [of MainDialog_glyphs always_ok
      "Some [TextPart ''a'', TextPart ''b'']" "startStreaming sp0"]
    C1_message_first_part_only [of MainDialog_glyphs always_ok
      "Some [FilePart None, TextPart ''b'']" "startStreaming sp0"]
  by (simp add: startStreaming_def)

section \<open>What the loop leaves alone\<close>

lemma contribute_frame:
  "lastArtifacts (contribute g ok t s) = lastArtifacts s"
  "currentTask (contribute g ok t s) = currentTask s"
  "receivedEvents (contribute g ok t s) = receivedEvents s"
  "isCompleted (contribute g ok t s) = isCompleted s"
  "typingInterval (contribute g ok t s) = typingInterval s"
  by (simp_all add: contribute_def Let_def split: option.splits)

lemma artifactPart_frame:
  "lastArtifacts (artifactPart g ok p s) = lastArtifacts s"
  "currentTask (artifactPart g ok p s) = currentTask s"
  "receivedEvents (artifactPart g ok p s) = receivedEvents s"
  "isCompleted (artifactPart g ok p s) = isCompleted s"
  "typingInterval (artifactPart g ok p s) = typingInterval s"
  by (cases p; simp add: contribute_frame)+

lemma artifactParts_frame:
  "lastArtifacts (artifactParts g ok ps s) = lastArtifacts s
   \<and> currentTask (artifactParts g ok ps s) = currentTask s
   \<and> receivedEvents (artifactParts g ok ps s) = receivedEvents s
   \<and> isCompleted (artifactParts g ok ps s) = isCompleted s
   \<and> typingInterval (artifactParts g ok ps s) = typingInterval s"
  by (induction ps arbitrary: s) (simp_all add: artifactPart_frame)

lemma processEvent_typing_frame:
  "typingInterval (processEvent g ok e s) \<Longrightarrow> typingInterval s"
  "isCompleted s \<Longrightarrow> isCompleted (processEvent g ok e s)"
  by (cases e; auto simp: Let_def contribute_frame artifactParts_frame updateActivity_def
        split: option.splits list.splits if_splits)+

lemma processEvent_not_live:
  "\<not> typingLive s \<Longrightarrow> \<not> typingLive (processEvent g ok e s)"
  by (auto simp: typingLive_def dest: processEvent_typing_frame)

lemma consume_not_live:
  "\<not> typingLive s \<Longrightarrow> \<not> typingLive (consume g ok evs s)"
  by (induction evs arbitrary: s) (simp_all add: processEvent_not_live)

section \<open>The artifacts sequence\<close>

text \<open>
  C3 (as stated): the artifacts sequence only grows by appending. The task branch
  assigns: after an artifact update carrying "a1", a task event carrying the artifact
  "a2" leaves the sequence holding "a2" alone, and "a1" is gone. An artifact update whose
  artifact has no \<^verbatim>\<open>parts\<close> property is not appended either.
\<close>

theorem C3_task_replaces_artifacts:
  "lastArtifacts (consume DialogBot_glyphs always_ok
      [ArtifactUpdate (Some (art ''a1'' (Some [FilePart None]))),
       task_ev ''t1'' (Some [art ''a2'' (Some [])])]
      (startStreaming sp0)) = [art ''a2'' (Some [])]
   \<and> lastArtifacts (consume DialogBot_glyphs always_ok
      [ArtifactUpdate (Some (art ''a1'' (Some [FilePart None]))),
       task_ev ''t1'' (Some [art ''a2'' (Some [])])]
      (startStreaming sp0)) \<noteq> [art ''a1'' (Some [FilePart None]), art ''a2'' (Some [])]
   \<and> lastArtifacts (consume DialogBot_glyphs always_ok
      [ArtifactUpdate (Some (art ''a3'' None))] (startStreaming sp0)) = []"
  by (simp add: startStreaming_def task_ev_def art_def)

text \<open>
  C3 (amended): a task event carrying a non-empty artifacts list replaces the sequence
  by that list (a task event without artifacts, or with an empty list, leaves it as it
  is); an artifact update appends its artifact whenever the artifact has a parts list,
  also an empty one, and leaves the sequence as it is when the artifact or its parts
  list is absent; no other event changes the sequence.
\<close>

theorem C3_artifacts_step:
  "lastArtifacts (processEvent g ok (Task tk) s) =
     (case artifacts tk of
        None \<Rightarrow> lastArtifacts s
      | Some arts \<Rightarrow> if arts \<noteq> [] then arts else lastArtifacts s)
   \<and> lastArtifacts (processEvent g ok (ArtifactUpdate a) s) =
     (case a of
        None \<Rightarrow> lastArtifacts s
      | Some ar \<Rightarrow>
          (case parts ar of
             None \<Rightarrow> lastArtifacts s
           | Some ps \<Rightarrow> lastArtifacts s @ [ar]))
   \<and> lastArtifacts (processEvent g ok (Message mps) s) = lastArtifacts s
   \<and> lastArtifacts (processEvent g ok (StatusUpdate st) s) = lastArtifacts s
   \<and> lastArtifacts (processEvent g ok OtherEvent s) = lastArtifacts s"
  by (auto simp: Let_def contribute_frame artifactParts_frame updateActivity_def
        split: option.splits list.splits)

theorem C3_artifacts_step_witness:
  "lastArtifacts (processEvent DialogBot_glyphs always_ok
      (ArtifactUpdate (Some (art ''a1'' (Some [])))) (startStreaming sp0)) = [art ''a1'' (Some [])]"
  using C3_artifacts_step [of DialogBot_glyphs always_ok _ "startStreaming sp0"
      "Some (art ''a1'' (Some []))"]
  by (simp add: startStreaming_def art_def)

section \<open>The typing timer\<close>

text \<open>
  C4 (as stated): a status update with any terminal status stops the typing timer. The
  code tests for "completed" only: after a status update "failed" the timer is still
  armed and the flag still false, and the text of the next message is sent with no
  \<^verbatim>\<open>clearInterval\<close> before it.
\<close>

theorem C4_failed_keeps_typing:
  "typingLive (processEvent DialogBot_glyphs always_ok (status_ev ''failed'') (startStreaming sp0))
   \<and> typingLive (processEvent DialogBot_glyphs always_ok (status_ev ''canceled'') (startStreaming sp0))
   \<and> effects (consume DialogBot_glyphs always_ok [status_ev ''failed'', msg ''x''] (startStreaming sp0))
       = [Typing, SendMessageStream sp0, SetInterval, Send (robot DialogBot_glyphs @ '' x'')]
   \<and> typingLive (consume DialogBot_glyphs always_ok [status_ev ''failed'', msg ''x''] (startStreaming sp0))"
  by (simp add: startStreaming_def status_ev_def msg_def typingLive_def contribute_def)

text \<open>
  C4 (amended): a status update "completed" clears the timer and sets the flag before
  anything else it emits, and the timer cannot fire during the rest of the loop; a
  status update with any other status, "failed" and "canceled" included, emits nothing
  and leaves the timer as it was; the end of the loop clears the timer before
  finalization emits anything.
\<close>

theorem C4_completed_stops_typing:
  "(state st = ''completed'' \<longrightarrow>
      (\<exists>rest. effects (processEvent g ok (StatusUpdate st) s) = effects s @ ClearInterval # rest)
      \<and> \<not> typingLive (consume g ok evs (processEvent g ok (StatusUpdate st) s)))
   \<and> (state st \<noteq> ''completed'' \<longrightarrow>
      typingLive (processEvent g ok (StatusUpdate st) s) = typingLive s
      \<and> effects (processEvent g ok (StatusUpdate st) s) = effects s)
   \<and> effects (afterLoop g ok sp evs) = effects (consume g ok evs (startStreaming sp)) @ [ClearInterval]
   \<and> \<not> typingLive (afterLoop g ok sp evs)"
proof -
  have a: "state st = ''completed'' \<Longrightarrow>
      \<exists>rest. effects (processEvent g ok (StatusUpdate st) s) = effects s @ ClearInterval # rest"
    by (auto simp: Let_def updateActivity_def split: option.splits)
  have b: "state st = ''completed'' \<Longrightarrow> \<not> typingLive (processEvent g ok (StatusUpdate st) s)"
    by (auto simp: Let_def updateActivity_def typingLive_def split: option.splits)
  have c: "state st \<noteq> ''completed'' \<Longrightarrow>
      typingLive (processEvent g ok (StatusUpdate st) s) = typingLive s
      \<and> effects (processEvent g ok (StatusUpdate st) s) = effects s"
    by (auto simp: Let_def typingLive_def split: option.splits)
  have d: "effects (afterLoop g ok sp evs) = effects (consume g ok evs (startStreaming sp)) @ [ClearInterval]
      \<and> \<not> typingLive (afterLoop g ok sp evs)"
    by (simp add: afterLoop_def stopTyping_def typingLive_def)
  from a b c d show ?thesis by (simp add: consume_not_live)
qed

theorem C4_completed_stops_typing_witness:
  "state \<lparr>state = ''completed'', message = None\<rparr> = ''completed''
   \<and> \<not> typingLive (consume DialogBot_glyphs always_ok [msg ''x'']
        (processEvent DialogBot_glyphs always_ok
           (StatusUpdate \<lparr>state = ''completed'', message = None\<rparr>) (startStreaming sp0)))
   \<and> state \<lparr>state = ''working'', message = None\<rparr> \<noteq> ''completed''
   \<and> typingLive (processEvent DialogBot_glyphs always_ok
           (StatusUpdate \<lparr>state = ''working'', message = None\<rparr>) (startStreaming sp0))
   \<and> typingLive (startStreaming sp0)"
proof -
  have l: "typingLive (startStreaming sp0)"
    by (simp add: typingLive_def startStreaming_def)
  have c: "state \<lparr>state = ''completed'', message = None\<rparr> = ''completed''"
    by simp
  have w: "state \<lparr>state = ''working'', message = None\<rparr> \<noteq> ''completed''"
    by simp
  note T1 = C4_completed_stops_typing [where st = "\<lparr>state = ''completed'', message = None\<rparr>"
      and g = DialogBot_glyphs and ok = always_ok and s = "startStreaming sp0"
      and evs = "[msg ''x'']" and sp = sp0]
  note T2 = C4_completed_stops_typing [where st = "\<lparr>state = ''working'', message = None\<rparr>"
      and g = DialogBot_glyphs and ok = always_ok and s = "startStreaming sp0"
      and evs = "[msg ''x'']" and sp = sp0]
  note e1 = T1 [THEN conjunct1, THEN mp, OF c, THEN conjunct2]
  note e2 = T2 [THEN conjunct2, THEN conjunct1, THEN mp, OF w, THEN conjunct1]
  from l c w e1 e2 show ?thesis by simp
qed

section \<open>Counting updates and messages\<close>

lemma n_updates_append [simp]: "n_updates (a @ b) = n_updates a + n_updates b"
  by (simp add: n_updates_def)

lemma n_updates_simps [simp]:
  "n_updates [] = 0"
  "n_updates (Update h t b # es) = Suc (n_updates es)"
  "n_updates (Send t # es) = n_updates es"
  "n_updates (Typing # es) = n_updates es"
  "n_updates (ClearInterval # es) = n_updates es"
  "n_updates (SetInterval # es) = n_updates es"
  "n_updates (SendMessage sp # es) = n_updates es"
  "n_updates (SendMessageStream sp # es) = n_updates es"
  by (simp_all add: n_updates_def)

lemma div5_step: "(n::nat) div 5 \<le> Suc n div 5"
  by simp

lemma div5_hit: "Suc n mod 5 = 0 \<Longrightarrow> Suc (n div 5) = Suc n div 5"
  by presburger

lemma contribute_updates:
  "n_updates (effects (contribute g ok t s)) + updateCount s div 5
     \<le> n_updates (effects s) + updateCount (contribute g ok t s) div 5"
  by (auto simp: contribute_def Let_def updateActivity_def div5_step dest: div5_hit
        split: option.splits)

lemma artifactPart_updates:
  "n_updates (effects (artifactPart g ok p s)) + updateCount s div 5
     \<le> n_updates (effects s) + updateCount (artifactPart g ok p s) div 5"
  using contribute_updates by (cases p) auto

lemma artifactParts_updates:
  "n_updates (effects (artifactParts g ok ps s)) + updateCount s div 5
     \<le> n_updates (effects s) + updateCount (artifactParts g ok ps s) div 5"
proof (induction ps arbitrary: s)
  case Nil
  show ?case by simp
next
  case (Cons p ps)
  from Cons.IH [of "artifactPart g ok p s"] artifactPart_updates [of g ok p s]
  show ?case by simp
qed

lemma contribute_updates_received:
  "n_updates (effects (contribute g ok t (s\<lparr>receivedEvents := True\<rparr>))) + updateCount s div 5
     \<le> n_updates (effects s) + updateCount (contribute g ok t (s\<lparr>receivedEvents := True\<rparr>)) div 5"
  using contribute_updates [of g ok t "s\<lparr>receivedEvents := True\<rparr>"] by simp

lemma artifactParts_updates_received:
  "n_updates (effects (artifactParts g ok ps (s\<lparr>receivedEvents := True\<rparr>))) + updateCount s div 5
     \<le> n_updates (effects s) + updateCount (artifactParts g ok ps (s\<lparr>receivedEvents := True\<rparr>)) div 5"
  using artifactParts_updates [of g ok ps "s\<lparr>receivedEvents := True\<rparr>"] by simp

lemma processEvent_updates:
  "n_updates (effects (processEvent g ok e s)) + updateCount s div 5
     \<le> n_updates (effects s) + updateCount (processEvent g ok e s) div 5 + n_completed [e]"
proof (cases e)
  case (Message ps)
  then show ?thesis
    by (auto simp: Let_def n_completed_def contribute_updates_received
          split: option.splits list.splits)
next
  case (Task tk)
  then show ?thesis by (auto simp: Let_def split: option.splits)
next
  case (StatusUpdate st)
  then show ?thesis
    by (auto simp: Let_def updateActivity_def n_completed_def split: option.splits)
next
  case (ArtifactUpdate a)
  then show ?thesis
    by (auto simp: Let_def n_completed_def artifactParts_updates_received split: option.splits)
next
  case OtherEvent
  then show ?thesis by simp
qed

lemma n_completed_Cons: "n_completed (e # evs) = n_completed [e] + n_completed evs"
  by (simp add: n_completed_def)

lemma consume_updates:
  "n_updates (effects (consume g ok evs s)) + updateCount s div 5
     \<le> n_updates (effects s) + updateCount (consume g ok evs s) div 5 + n_completed evs"
proof (induction evs arbitrary: s)
  case Nil
  show ?case by simp
next
  case (Cons e evs)
  from Cons.IH [of "processEvent g ok e s"] processEvent_updates [of g ok e s]
  show ?case by (simp add: n_completed_Cons [of e evs])
qed

lemma afterLoop_updates:
  "n_updates (effects (afterLoop g ok sp evs))
     \<le> updateCount (afterLoop g ok sp evs) div 5 + n_completed evs"
  using consume_updates [of g ok evs "startStreaming sp"]
  by (simp add: afterLoop_def stopTyping_def startStreaming_def)


lemma n_sends_append [simp]: "n_sends (a @ b) = n_sends a + n_sends b"
  by (simp add: n_sends_def)

lemma n_sends_simps [simp]:
  "n_sends [] = 0"
  "n_sends (Update h t b # es) = n_sends es"
  "n_sends (Send t # es) = Suc (n_sends es)"
  "n_sends (Typing # es) = n_sends es"
  "n_sends (ClearInterval # es) = n_sends es"
  "n_sends (SetInterval # es) = n_sends es"
  "n_sends (SendMessage sp # es) = n_sends es"
  "n_sends (SendMessageStream sp # es) = n_sends es"
  by (simp_all add: n_sends_def)

lemma no_sends_updates_to: "n_sends es = 0 \<Longrightarrow> n_updates es = 0 \<Longrightarrow> list_all (updates_to h) es"
proof (induction es)
  case Nil
  show ?case by simp
next
  case (Cons e es)
  then show ?case by (cases e) simp_all
qed

lemma contribute_inv: "t \<noteq> [] \<Longrightarrow> loop_inv s \<Longrightarrow> loop_inv (contribute g ok t s)"
  by (auto simp: loop_inv_def contribute_def Let_def updateActivity_def nth_append
        no_sends_updates_to split: option.splits)

lemma artifactPart_inv: "loop_inv s \<Longrightarrow> loop_inv (artifactPart g ok p s)"
  by (cases p) (simp_all add: contribute_inv)

lemma artifactParts_inv: "loop_inv s \<Longrightarrow> loop_inv (artifactParts g ok ps s)"
  by (induction ps arbitrary: s) (simp_all add: artifactPart_inv)

lemma loop_inv_frame:
  "loop_inv (s\<lparr>receivedEvents := r\<rparr>) = loop_inv s"
  "loop_inv (s\<lparr>lastArtifacts := la\<rparr>) = loop_inv s"
  "loop_inv (s\<lparr>currentTask := ct\<rparr>) = loop_inv s"
  "loop_inv (s\<lparr>isCompleted := c\<rparr>) = loop_inv s"
  "loop_inv (s\<lparr>typingInterval := ti\<rparr>) = loop_inv s"
  by (simp_all add: loop_inv_def split: option.splits)

lemma processEvent_inv: "loop_inv s \<Longrightarrow> loop_inv (processEvent g ok e s)"
proof (cases e)
  case (Message ps)
  assume "loop_inv s"
  with Message show ?thesis
    by (auto simp: Let_def loop_inv_frame contribute_inv split: option.splits list.splits)
next
  case (Task tk)
  assume "loop_inv s"
  with Task show ?thesis by (auto simp: Let_def loop_inv_frame split: option.splits)
next
  case (StatusUpdate st)
  assume "loop_inv s"
  with StatusUpdate show ?thesis
    by (auto simp: Let_def loop_inv_def updateActivity_def nth_append split: option.splits)
next
  case (ArtifactUpdate a)
  assume "loop_inv s"
  with ArtifactUpdate show ?thesis
    by (auto simp: Let_def loop_inv_frame artifactParts_inv split: option.splits)
next
  case OtherEvent
  assume "loop_inv s"
  with OtherEvent show ?thesis by (simp add: loop_inv_frame)
qed

lemma consume_inv: "loop_inv s \<Longrightarrow> loop_inv (consume g ok evs s)"
  by (induction evs arbitrary: s) (simp_all add: processEvent_inv)

lemma afterLoop_inv: "loop_inv (afterLoop g ok sp evs)"
proof -
  have "loop_inv (startStreaming sp)"
    by (simp add: loop_inv_def startStreaming_def)
  then have "loop_inv (consume g ok evs (startStreaming sp))"
    by (rule consume_inv)
  then show ?thesis
    by (auto simp: afterLoop_def stopTyping_def loop_inv_def nth_append split: option.splits)
qed

lemma finishText_one_message:
  assumes "accumulatedText (afterLoop g ok sp evs) \<noteq> []"
  shows "\<exists>h. messageActivity (afterLoop g ok sp evs) = Some h
     \<and> n_sends (effects (afterLoop g ok sp evs)) = 1
     \<and> is_send (finish g render ok (afterLoop g ok sp evs) ! h)
     \<and> list_all (updates_to h) (finish g render ok (afterLoop g ok sp evs))
     \<and> n_sends (finish g render ok (afterLoop g ok sp evs))
         = (if ok (n_updates (effects (afterLoop g ok sp evs))) then 1 else 2)"
  using assms afterLoop_inv [of g ok sp evs]
  by (auto simp: loop_inv_def finish_def finishText_def updateActivity_def Let_def nth_append
        split: option.splits)

lemma n_updates_concat: "(\<And>x. x \<in> set xs \<Longrightarrow> n_updates (f x) = 0) \<Longrightarrow> n_updates (concat (map f xs)) = 0"
  by (induction xs) simp_all

lemma DialogBot_renderPart_updates: "n_updates (DialogBot_renderPart p) = 0"
  by (cases p) simp_all

lemma MainDialog_renderPart_updates: "n_updates (MainDialog_renderPart p) = 0"
  by (cases p) simp_all

lemma DialogBot_renderArtifacts_updates: "n_updates (DialogBot_renderArtifacts arts) = 0"
  by (simp add: DialogBot_renderArtifacts_def DialogBot_renderArtifact_def n_updates_concat
        DialogBot_renderPart_updates split: option.splits)

lemma MainDialog_displayTaskArtifacts_updates: "n_updates (MainDialog_displayTaskArtifacts arts) = 0"
  by (simp add: MainDialog_displayTaskArtifacts_def MainDialog_renderArtifact_def n_updates_concat
        MainDialog_renderPart_updates split: option.splits)

lemma tail_updates:
  "n_updates (statusMessage g st) = 0"
  "n_updates (pendingNotice g st) = 0"
  "(\<And>arts. n_updates (render arts) = 0) \<Longrightarrow> n_updates (initialArtifacts render tk) = 0"
  by (simp_all add: statusMessage_def pendingNotice_def initialArtifacts_def split: option.splits)

lemma DialogBot_regular_updates: "n_updates (snd (DialogBot_handleRegularResponse sp reply)) = 0"
proof (cases reply)
  case (Result r)
  then show ?thesis
    by (cases r) (simp_all add: tail_updates DialogBot_renderArtifacts_updates)
qed simp_all

lemma MainDialog_regular_updates: "n_updates (snd (MainDialog_handleRegularResponse sp reply)) = 0"
proof (cases reply)
  case (Result r)
  then show ?thesis
    by (cases r) (simp_all add: tail_updates MainDialog_displayTaskArtifacts_updates)
qed simp_all

lemma finish_updates:
  "(\<And>arts. n_updates (render arts) = 0) \<Longrightarrow>
   n_updates (finish g render ok s) \<le> n_updates (effects s) + 1"
  by (auto simp: finish_def finishText_def finishTask_def updateActivity_def Let_def
        split: option.splits)

text \<open>
  C6 (amended): over the whole reconciliation, update-in-place is invoked at most
  \<open>updateCount div 5\<close> times by the periodic rule (so at most the rounded-up fifth of
  the claim), plus once for every status update "completed" of the stream, plus once
  by finalization. The forced updates and the finalization update are separate calls.
\<close>

theorem C6_update_bound:
  "n_updates (snd (DialogBot_handleStreamingResponse ok sp (evs, err) reply))
     \<le> updateCount (afterLoop DialogBot_glyphs ok sp evs) div 5 + n_completed evs + 1
   \<and> n_updates (snd (MainDialog_handleStreamingResponse ok sp (evs, err) reply))
     \<le> updateCount (afterLoop MainDialog_glyphs ok sp evs) div 5 + n_completed evs + 1"
proof
  show "n_updates (snd (DialogBot_handleStreamingResponse ok sp (evs, err) reply))
     \<le> updateCount (afterLoop DialogBot_glyphs ok sp evs) div 5 + n_completed evs + 1"
    using afterLoop_updates [of DialogBot_glyphs ok sp evs]
      finish_updates [of DialogBot_renderArtifacts DialogBot_glyphs ok
        "afterLoop DialogBot_glyphs ok sp evs", OF DialogBot_renderArtifacts_updates]
    by (cases err) (simp_all add: DialogBot_handleStreamingResponse_def DialogBot_regular_updates)
  show "n_updates (snd (MainDialog_handleStreamingResponse ok sp (evs, err) reply))
     \<le> updateCount (afterLoop MainDialog_glyphs ok sp evs) div 5 + n_completed evs + 1"
    using afterLoop_updates [of MainDialog_glyphs ok sp evs]
      finish_updates [of MainDialog_displayTaskArtifacts MainDialog_glyphs ok
        "afterLoop MainDialog_glyphs ok sp evs", OF MainDialog_displayTaskArtifacts_updates]
    by (cases err) (simp_all add: MainDialog_handleStreamingResponse_def MainDialog_regular_updates)
qed

text \<open>
  C6 (as stated): at most the rounded-up fifth of \<open>updateCount\<close> plus one updates.
  Five texts followed by a status update "completed" give three updates (the periodic
  one at the fifth text, the forced one, and the one of finalization) against a bound
  of two.
\<close>

theorem C6_three_updates_for_five_texts:
  "n_updates (snd (DialogBot_handleStreamingResponse always_ok sp0
      ([msg ''a'', msg ''b'', msg ''c'', msg ''d'', msg ''e'', status_ev ''completed''], None)
      (Throws ''x''))) = 3
   \<and> updateCount (afterLoop DialogBot_glyphs always_ok sp0
      [msg ''a'', msg ''b'', msg ''c'', msg ''d'', msg ''e'', status_ev ''completed'']) = 5
   \<and> \<not> n_updates (snd (DialogBot_handleStreamingResponse always_ok sp0
      ([msg ''a'', msg ''b'', msg ''c'', msg ''d'', msg ''e'', status_ev ''completed''], None)
      (Throws ''x'')))
     \<le> (updateCount (afterLoop DialogBot_glyphs always_ok sp0
      [msg ''a'', msg ''b'', msg ''c'', msg ''d'', msg ''e'', status_ev ''completed'']) + 4) div 5 + 1"
  by (simp add: DialogBot_handleStreamingResponse_def afterLoop_def stopTyping_def startStreaming_def
        msg_def status_ev_def contribute_def updateActivity_def finish_def finishText_def always_ok_def
        Let_def)

theorem C6_update_bound_witness:
  "n_updates (snd (DialogBot_handleStreamingResponse always_ok sp0
      ([msg ''a'', msg ''b'', msg ''c'', msg ''d'', msg ''e'', status_ev ''completed''], None)
      (Throws ''x''))) \<le> 1 + 1 + 1"
proof -
  have "updateCount (afterLoop DialogBot_glyphs always_ok sp0
      [msg ''a'', msg ''b'', msg ''c'', msg ''d'', msg ''e'', status_ev ''completed'']) div 5 = 1"
    by (simp add: afterLoop_def stopTyping_def startStreaming_def
        msg_def status_ev_def contribute_def updateActivity_def)
  moreover have "n_completed [msg ''a'', msg ''b'', msg ''c'', msg ''d'', msg ''e'', status_ev ''completed''] = 1"
    by (simp add: n_completed_def msg_def status_ev_def)
  ultimately show ?thesis
    using C6_update_bound [of always_ok sp0
      "[msg ''a'', msg ''b'', msg ''c'', msg ''d'', msg ''e'', status_ev ''completed'']" None "Throws ''x''"]
    by simp
qed

text \<open>
  C5 (amended): when the accumulated text is not empty, exactly one message is created
  while the stream is consumed, and every update-in-place of the invocation goes to its
  handle. A failed update inside the loop is swallowed and nothing is sent in its place;
  when the stream ends without raising, only a failed finalization update is replaced
  by one new message, so the invocation sends one text message, or two when that last
  update failed. No update failure makes the invocation fail.
\<close>

theorem C5_one_message_final_substitute:
  "(accumulatedText (afterLoop DialogBot_glyphs ok sp evs) \<noteq> [] \<longrightarrow>
      fst (DialogBot_handleStreamingResponse ok sp (evs, None) reply) = Inr ()
      \<and> (\<exists>h. messageActivity (afterLoop DialogBot_glyphs ok sp evs) = Some h
            \<and> n_sends (effects (afterLoop DialogBot_glyphs ok sp evs)) = 1
            \<and> is_send (snd (DialogBot_handleStreamingResponse ok sp (evs, None) reply) ! h)
            \<and> list_all (updates_to h) (snd (DialogBot_handleStreamingResponse ok sp (evs, None) reply)))
      \<and> n_sends (snd (DialogBot_handleStreamingResponse ok sp (evs, None) reply))
          = (if ok (n_updates (effects (afterLoop DialogBot_glyphs ok sp evs))) then 1 else 2))
   \<and> (accumulatedText (afterLoop MainDialog_glyphs ok sp evs) \<noteq> [] \<longrightarrow>
      fst (MainDialog_handleStreamingResponse ok sp (evs, None) reply) = Inr ()
      \<and> (\<exists>h. messageActivity (afterLoop MainDialog_glyphs ok sp evs) = Some h
            \<and> n_sends (effects (afterLoop MainDialog_glyphs ok sp evs)) = 1
            \<and> is_send (snd (MainDialog_handleStreamingResponse ok sp (evs, None) reply) ! h)
            \<and> list_all (updates_to h) (snd (MainDialog_handleStreamingResponse ok sp (evs, None) reply)))
      \<and> n_sends (snd (MainDialog_handleStreamingResponse ok sp (evs, None) reply))
          = (if ok (n_updates (effects (afterLoop MainDialog_glyphs ok sp evs))) then 1 else 2))"
proof (rule conjI; rule impI)
  assume a: "accumulatedText (afterLoop DialogBot_glyphs ok sp evs) \<noteq> []"
  from finishText_one_message [OF a, of DialogBot_renderArtifacts]
  obtain h where h: "messageActivity (afterLoop DialogBot_glyphs ok sp evs) = Some h"
      "n_sends (effects (afterLoop DialogBot_glyphs ok sp evs)) = 1"
      "is_send (finish DialogBot_glyphs DialogBot_renderArtifacts ok (afterLoop DialogBot_glyphs ok sp evs) ! h)"
      "list_all (updates_to h) (finish DialogBot_glyphs DialogBot_renderArtifacts ok (afterLoop DialogBot_glyphs ok sp evs))"
      "n_sends (finish DialogBot_glyphs DialogBot_renderArtifacts ok (afterLoop DialogBot_glyphs ok sp evs))
         = (if ok (n_updates (effects (afterLoop DialogBot_glyphs ok sp evs))) then 1 else 2)"
    by blast
  have r: "DialogBot_handleStreamingResponse ok sp (evs, None) reply
      = (Inr (), finish DialogBot_glyphs DialogBot_renderArtifacts ok (afterLoop DialogBot_glyphs ok sp evs))"
    by (simp add: DialogBot_handleStreamingResponse_def)
  show "fst (DialogBot_handleStreamingResponse ok sp (evs, None) reply) = Inr ()
      \<and> (\<exists>h. messageActivity (afterLoop DialogBot_glyphs ok sp evs) = Some h
            \<and> n_sends (effects (afterLoop DialogBot_glyphs ok sp evs)) = 1
            \<and> is_send (snd (DialogBot_handleStreamingResponse ok sp (evs, None) reply) ! h)
            \<and> list_all (updates_to h) (snd (DialogBot_handleStreamingResponse ok sp (evs, None) reply)))
      \<and> n_sends (snd (DialogBot_handleStreamingResponse ok sp (evs, None) reply))
          = (if ok (n_updates (effects (afterLoop DialogBot_glyphs ok sp evs))) then 1 else 2)"
    unfolding r fst_conv snd_conv using h by blast
next
  assume a: "accumulatedText (afterLoop MainDialog_glyphs ok sp evs) \<noteq> []"
  from finishText_one_message [OF a, of MainDialog_displayTaskArtifacts]
  obtain h where h: "messageActivity (afterLoop MainDialog_glyphs ok sp evs) = Some h"
      "n_sends (effects (afterLoop MainDialog_glyphs ok sp evs)) = 1"
      "is_send (finish MainDialog_glyphs MainDialog_displayTaskArtifacts ok (afterLoop MainDialog_glyphs ok sp evs) ! h)"
      "list_all (updates_to h) (finish MainDialog_glyphs MainDialog_displayTaskArtifacts ok (afterLoop MainDialog_glyphs ok sp evs))"
      "n_sends (finish MainDialog_glyphs MainDialog_displayTaskArtifacts ok (afterLoop MainDialog_glyphs ok sp evs))
         = (if ok (n_updates (effects (afterLoop MainDialog_glyphs ok sp evs))) then 1 else 2)"
    by blast
  have r: "MainDialog_handleStreamingResponse ok sp (evs, None) reply
      = (Inr (), finish MainDialog_glyphs MainDialog_displayTaskArtifacts ok (afterLoop MainDialog_glyphs ok sp evs))"
    by (simp add: MainDialog_handleStreamingResponse_def)
  show "fst (MainDialog_handleStreamingResponse ok sp (evs, None) reply) = Inr ()
      \<and> (\<exists>h. messageActivity (afterLoop MainDialog_glyphs ok sp evs) = Some h
            \<and> n_sends (effects (afterLoop MainDialog_glyphs ok sp evs)) = 1
            \<and> is_send (snd (MainDialog_handleStreamingResponse ok sp (evs, None) reply) ! h)
            \<and> list_all (updates_to h) (snd (MainDialog_handleStreamingResponse ok sp (evs, None) reply)))
      \<and> n_sends (snd (MainDialog_handleStreamingResponse ok sp (evs, None) reply))
          = (if ok (n_updates (effects (afterLoop MainDialog_glyphs ok sp evs))) then 1 else 2)"
    unfolding r fst_conv snd_conv using h by blast
qed

text \<open>
  C5 (as stated): one substitute message for every failed update. On a surface that
  rejects every update, five texts give two failed updates (the periodic one and the
  one of finalization) and two sent messages: the created one and a single substitute.
\<close>

theorem C5_failed_updates_not_substituted:
  "n_failed_updates (snd (DialogBot_handleStreamingResponse never_ok sp0
      ([msg ''a'', msg ''b'', msg ''c'', msg ''d'', msg ''e''], None) (Throws ''x''))) = 2
   \<and> n_sends (snd (DialogBot_handleStreamingResponse never_ok sp0
      ([msg ''a'', msg ''b'', msg ''c'', msg ''d'', msg ''e''], None) (Throws ''x''))) = 2
   \<and> n_sends (snd (DialogBot_handleStreamingResponse never_ok sp0
      ([msg ''a'', msg ''b'', msg ''c'', msg ''d'', msg ''e''], None) (Throws ''x'')))
     \<noteq> 1 + n_failed_updates (snd (DialogBot_handleStreamingResponse never_ok sp0
      ([msg ''a'', msg ''b'', msg ''c'', msg ''d'', msg ''e''], None) (Throws ''x'')))"
  by (simp add: DialogBot_handleStreamingResponse_def afterLoop_def stopTyping_def startStreaming_def
        msg_def contribute_def updateActivity_def finish_def finishText_def never_ok_def
        n_failed_updates_def Let_def)

theorem C5_one_message_final_substitute_witness:
  "accumulatedText (afterLoop DialogBot_glyphs never_ok sp0 [msg ''a'']) \<noteq> []
   \<and> n_sends (snd (DialogBot_handleStreamingResponse never_ok sp0 ([msg ''a''], None) (Throws ''x''))) = 2
   \<and> accumulatedText (afterLoop MainDialog_glyphs never_ok sp0 [msg ''a'']) \<noteq> []
   \<and> n_sends (snd (MainDialog_handleStreamingResponse never_ok sp0 ([msg ''a''], None) (Throws ''x''))) = 2"
proof -
  have a: "accumulatedText (afterLoop DialogBot_glyphs never_ok sp0 [msg ''a'']) \<noteq> []"
    by (simp add: afterLoop_def stopTyping_def startStreaming_def msg_def contribute_def)
  have b: "accumulatedText (afterLoop MainDialog_glyphs never_ok sp0 [msg ''a'']) \<noteq> []"
    by (simp add: afterLoop_def stopTyping_def startStreaming_def msg_def contribute_def)
  from a b C5_one_message_final_substitute [of never_ok sp0 "[msg ''a'']" "Throws ''x''"]
  show ?thesis by (simp add: never_ok_def)
qed

section \<open>Parts without text\<close>

lemma artifactParts_textless:
  "list_all (\<lambda>p. \<not> carries_text p) ps \<Longrightarrow> artifactParts g ok ps s = s"
proof (induction ps arbitrary: s)
  case Nil
  show ?case by simp
next
  case (Cons p ps)
  then show ?case by (cases p) simp_all
qed

lemma not_carries_text:
  "\<not> carries_text p \<Longrightarrow>
     (case part_text p of None \<Rightarrow> a | Some t \<Rightarrow> if t \<noteq> [] then f t else a) = a"
  by (cases p) auto

lemma processEvent_textless:
  "textless e \<Longrightarrow>
     accumulatedText (processEvent g ok e s) = accumulatedText s
     \<and> updateCount (processEvent g ok e s) = updateCount s
     \<and> messageActivity (processEvent g ok e s) = messageActivity s
     \<and> n_sends (effects (processEvent g ok e s)) = n_sends (effects s)"
proof (cases e)
  case (Message ps)
  assume "textless e"
  with Message show ?thesis
    by (cases ps; auto simp: Let_def not_carries_text split: list.splits)
next
  case (Task tk)
  then show ?thesis by (auto simp: Let_def split: option.splits)
next
  case (StatusUpdate st)
  then show ?thesis by (auto simp: Let_def updateActivity_def split: option.splits)
next
  case (ArtifactUpdate a)
  assume "textless e"
  with ArtifactUpdate show ?thesis
    by (auto simp: Let_def artifactParts_textless split: option.splits)
next
  case OtherEvent
  then show ?thesis by simp
qed

lemma consume_textless:
  "list_all textless evs \<Longrightarrow>
     accumulatedText (consume g ok evs s) = accumulatedText s
     \<and> updateCount (consume g ok evs s) = updateCount s
     \<and> messageActivity (consume g ok evs s) = messageActivity s
     \<and> n_sends (effects (consume g ok evs s)) = n_sends (effects s)"
proof (induction evs arbitrary: s)
  case Nil
  show ?case by simp
next
  case (Cons e evs)
  from Cons.prems have e: "textless e" and r: "list_all textless evs" by simp_all
  from Cons.IH [OF r, of "processEvent g ok e s"] processEvent_textless [OF e, of g ok s]
  show ?case by simp
qed

lemma processEvent_received: "receivedEvents (processEvent g ok e s)"
  by (cases e)
    (auto simp: Let_def contribute_frame artifactParts_frame updateActivity_def
       split: option.splits list.splits)

lemma consume_received:
  "receivedEvents (consume g ok evs s) = (receivedEvents s \<or> evs \<noteq> [])"
proof (induction evs arbitrary: s)
  case Nil
  show ?case by simp
next
  case (Cons e evs)
  then show ?case by (simp add: processEvent_received)
qed

lemma afterLoop_received: "receivedEvents (afterLoop g ok sp evs) = (evs \<noteq> [])"
  by (simp add: afterLoop_def stopTyping_def consume_received startStreaming_def)

lemma textless_afterLoop:
  assumes "list_all textless evs"
  shows "accumulatedText (afterLoop g ok sp evs) = []
     \<and> updateCount (afterLoop g ok sp evs) = 0
     \<and> messageActivity (afterLoop g ok sp evs) = None
     \<and> n_sends (effects (afterLoop g ok sp evs)) = 0
     \<and> n_updates (effects (afterLoop g ok sp evs)) = 0"
  using consume_textless [OF assms, of g ok "startStreaming sp"] afterLoop_inv [of g ok sp evs]
  by (simp add: afterLoop_def stopTyping_def startStreaming_def loop_inv_def)

lemma textless_finish:
  assumes "list_all textless evs"
  shows "finish g render ok (afterLoop g ok sp evs)
     = (case currentTask (afterLoop g ok sp evs) of
          Some tk \<Rightarrow> finishTask g render tk (afterLoop g ok sp evs)
        | None \<Rightarrow>
            if evs = []
            then effects (afterLoop g ok sp evs) @ [Send (warning g @ '' No response received from agent.'')]
            else effects (afterLoop g ok sp evs))"
  using textless_afterLoop [OF assms, of g ok sp] afterLoop_received [of g ok sp evs]
  by (simp add: finish_def split: option.splits)

text \<open>
  C9 (amended): an empty text part, or a message whose first part carries no text,
  contributes nothing to the text: the accumulated text, the count and the handle stay
  what they were, and no message is created or updated for it. The part loop leaves the
  state as it is on an empty text part; a message without text changes the flag that an
  event was received and nothing else. A stream in which no part carries text ends the
  loop with empty text, count zero and no handle, with nothing sent and nothing
  updated, and finalization takes the branch without text: the task and its artifacts
  when a task was seen, else the notice that no response was received when the stream
  yielded no event at all, else nothing. The empty text part stays in its artifact and
  is rendered there as a page line of its own.
\<close>

theorem C9_empty_text_contributes_nothing:
  "artifactPart g ok (TextPart []) s = s
   \<and> (textless (Message ps) \<longrightarrow> processEvent g ok (Message ps) s = s\<lparr>receivedEvents := True\<rparr>)
   \<and> (list_all textless evs \<longrightarrow>
        accumulatedText (consume g ok evs s) = accumulatedText s
        \<and> updateCount (consume g ok evs s) = updateCount s
        \<and> messageActivity (consume g ok evs s) = messageActivity s
        \<and> n_sends (effects (consume g ok evs s)) = n_sends (effects s))
   \<and> (list_all textless evs \<longrightarrow>
        accumulatedText (afterLoop g ok sp evs) = []
        \<and> updateCount (afterLoop g ok sp evs) = 0
        \<and> messageActivity (afterLoop g ok sp evs) = None
        \<and> n_sends (effects (afterLoop g ok sp evs)) = 0
        \<and> n_updates (effects (afterLoop g ok sp evs)) = 0)
   \<and> (list_all textless evs \<longrightarrow>
        DialogBot_handleStreamingResponse ok sp (evs, None) rp
          = (Inr (),
             case currentTask (afterLoop DialogBot_glyphs ok sp evs) of
               Some tk \<Rightarrow> finishTask DialogBot_glyphs DialogBot_renderArtifacts tk
                            (afterLoop DialogBot_glyphs ok sp evs)
             | None \<Rightarrow>
                 if evs = []
                 then effects (afterLoop DialogBot_glyphs ok sp evs)
                      @ [Send (warning DialogBot_glyphs @ '' No response received from agent.'')]
                 else effects (afterLoop DialogBot_glyphs ok sp evs)))
   \<and> (list_all textless evs \<longrightarrow>
        MainDialog_handleStreamingResponse ok sp (evs, None) rp
          = (Inr (),
             case currentTask (afterLoop MainDialog_glyphs ok sp evs) of
               Some tk \<Rightarrow> finishTask MainDialog_glyphs MainDialog_displayTaskArtifacts tk
                            (afterLoop MainDialog_glyphs ok sp evs)
             | None \<Rightarrow>
                 if evs = []
                 then effects (afterLoop MainDialog_glyphs ok sp evs)
                      @ [Send (warning MainDialog_glyphs @ '' No response received from agent.'')]
                 else effects (afterLoop MainDialog_glyphs ok sp evs)))
   \<and> DialogBot_renderPart (TextPart []) = [Send (page DialogBot_glyphs @ '' '')]
   \<and> MainDialog_renderPart (TextPart []) = [Send (page MainDialog_glyphs @ '' '')]"
proof -
  have a: "artifactPart g ok (TextPart []) s = s" by simp
  have b: "textless (Message ps) \<Longrightarrow> processEvent g ok (Message ps) s = s\<lparr>receivedEvents := True\<rparr>"
    by (cases ps; auto simp: Let_def not_carries_text split: list.splits)
  have d: "list_all textless evs \<Longrightarrow>
        DialogBot_handleStreamingResponse ok sp (evs, None) rp
          = (Inr (),
             case currentTask (afterLoop DialogBot_glyphs ok sp evs) of
               Some tk \<Rightarrow> finishTask DialogBot_glyphs DialogBot_renderArtifacts tk
                            (afterLoop DialogBot_glyphs ok sp evs)
             | None \<Rightarrow>
                 if evs = []
                 then effects (afterLoop DialogBot_glyphs ok sp evs)
                      @ [Send (warning DialogBot_glyphs @ '' No response received from agent.'')]
                 else effects (afterLoop DialogBot_glyphs ok sp evs))"
    using textless_finish [of evs DialogBot_glyphs DialogBot_renderArtifacts ok sp]
    by (simp add: DialogBot_handleStreamingResponse_def)
  have m: "list_all textless evs \<Longrightarrow>
        MainDialog_handleStreamingResponse ok sp (evs, None) rp
          = (Inr (),
             case currentTask (afterLoop MainDialog_glyphs ok sp evs) of
               Some tk \<Rightarrow> finishTask MainDialog_glyphs MainDialog_displayTaskArtifacts tk
                            (afterLoop MainDialog_glyphs ok sp evs)
             | None \<Rightarrow>
                 if evs = []
                 then effects (afterLoop MainDialog_glyphs ok sp evs)
                      @ [Send (warning MainDialog_glyphs @ '' No response received from agent.'')]
                 else effects (afterLoop MainDialog_glyphs ok sp evs))"
    using textless_finish [of evs MainDialog_glyphs MainDialog_displayTaskArtifacts ok sp]
    by (simp add: MainDialog_handleStreamingResponse_def)
  have r: "DialogBot_renderPart (TextPart []) = [Send (page DialogBot_glyphs @ '' '')]"
      "MainDialog_renderPart (TextPart []) = [Send (page MainDialog_glyphs @ '' '')]"
    by simp_all
  from a b d m r consume_textless [of evs g ok s] textless_afterLoop [of evs g ok sp]
  show ?thesis by blast
qed

text \<open>
  C9 (as stated): an empty text part, or a message whose first part carries no text,
  leaves the whole state unchanged, and a stream of such parts behaves like a stream
  with no text. A message with an empty text sets the flag that an event was received:
  the stream made of it alone ends silently, where the stream that yields nothing ends
  with the notice that no response was received. An empty text part stays in its
  artifact: under a task, the artifact with one empty text part is rendered in three
  messages (task, name, an empty page line), the artifact without parts in two.
\<close>

theorem C9_empty_text_is_observable:
  "processEvent DialogBot_glyphs always_ok (msg []) (startStreaming sp0) \<noteq> startStreaming sp0
   \<and> n_sends (snd (DialogBot_handleStreamingResponse always_ok sp0 ([msg []], None) (Throws ''x''))) = 0
   \<and> n_sends (snd (DialogBot_handleStreamingResponse always_ok sp0 ([], None) (Throws ''x''))) = 1
   \<and> n_sends (snd (DialogBot_handleStreamingResponse always_ok sp0
        ([task_ev ''t1'' None, ArtifactUpdate (Some (art ''a1'' (Some [TextPart []])))], None)
        (Throws ''x''))) = 3
   \<and> n_sends (snd (DialogBot_handleStreamingResponse always_ok sp0
        ([task_ev ''t1'' None, ArtifactUpdate (Some (art ''a1'' (Some [])))], None)
        (Throws ''x''))) = 2"
proof -
  have "receivedEvents (processEvent DialogBot_glyphs always_ok (msg []) (startStreaming sp0))
      \<noteq> receivedEvents (startStreaming sp0)"
    by (simp add: msg_def startStreaming_def)
  then have a: "processEvent DialogBot_glyphs always_ok (msg []) (startStreaming sp0) \<noteq> startStreaming sp0"
    by (metis (full_types))
  have b: "n_sends (snd (DialogBot_handleStreamingResponse always_ok sp0 ([msg []], None) (Throws ''x''))) = 0
   \<and> n_sends (snd (DialogBot_handleStreamingResponse always_ok sp0 ([], None) (Throws ''x''))) = 1"
    by (simp add: DialogBot_handleStreamingResponse_def afterLoop_def stopTyping_def
          startStreaming_def msg_def finish_def)
  have c: "n_sends (snd (DialogBot_handleStreamingResponse always_ok sp0
        ([task_ev ''t1'' None, ArtifactUpdate (Some (art ''a1'' (Some [TextPart []])))], None)
        (Throws ''x''))) = 3
   \<and> n_sends (snd (DialogBot_handleStreamingResponse always_ok sp0
        ([task_ev ''t1'' None, ArtifactUpdate (Some (art ''a1'' (Some [])))], None)
        (Throws ''x''))) = 2"
    by (simp add: DialogBot_handleStreamingResponse_def afterLoop_def stopTyping_def
          startStreaming_def task_ev_def art_def finish_def finishTask_def
          DialogBot_renderArtifacts_def DialogBot_renderArtifact_def)
  from a b c show ?thesis by blast
qed

section \<open>A result of another kind\<close>

text \<open>
  C10: when the synchronous call returns a result that is neither a message nor a task,
  the fallback sends its typing indicator, makes the call, and returns normally without
  sending anything else, in both classes, also when it runs as the fallback of a stream
  that raised.
\<close>

theorem C10_other_result_renders_nothing:
  "DialogBot_handleRegularResponse sp (Result OtherResult) = (Inr (), [Typing, SendMessage sp])
   \<and> MainDialog_handleRegularResponse sp (Result OtherResult) = (Inr (), [Typing, SendMessage sp])
   \<and> DialogBot_handleStreamingResponse ok sp (evs, Some e) (Result OtherResult)
       = (Inr (), effects (afterLoop DialogBot_glyphs ok sp evs) @ [Typing, SendMessage sp])
   \<and> MainDialog_handleStreamingResponse ok sp (evs, Some e) (Result OtherResult)
       = (Inr (), effects (afterLoop MainDialog_glyphs ok sp evs) @ [Typing, SendMessage sp])"
  by (simp add: DialogBot_handleStreamingResponse_def MainDialog_handleStreamingResponse_def)

section \<open>A stream that raises\<close>

lemma transport_calls_append [simp]:
  "transport_calls (a @ b) = transport_calls a @ transport_calls b"
  by (simp add: transport_calls_def)

lemma transport_calls_simps [simp]:
  "transport_calls [] = []"
  "transport_calls (Update h t b # es) = transport_calls es"
  "transport_calls (Send t # es) = transport_calls es"
  "transport_calls (Typing # es) = transport_calls es"
  "transport_calls (ClearInterval # es) = transport_calls es"
  "transport_calls (SetInterval # es) = transport_calls es"
  "transport_calls (SendMessage sp # es) = SendMessage sp # transport_calls es"
  "transport_calls (SendMessageStream sp # es) = SendMessageStream sp # transport_calls es"
  by (simp_all add: transport_calls_def)






















text \<open>
  White space outside ASCII is trimmed as well: a no-break space before a control word
  and a line separator after it do not hide it; white space inside a text stays.
\<close>

lemma nbsp_login_is_command:
  "isDialogCommand (Some ([CHR 0xC2, CHR 0xA0] @ '' LogIn '' @ [CHR 0xE2, CHR 0x80, CHR 0xA8, CHR 0x0A]))"
  by (simp add: isDialogCommand_def trim_def trimEnd_def white_space_def toLowerCase_def)

lemma inner_space_kept: "trim '' a b '' = ''a b''"
  by (simp add: trim_def trimEnd_def white_space_def)





section \<open>A rejected token\<close>

text \<open>
  C2 (evaluation at the failing input): the agent rejects the token on the stream and on
  the synchronous call, and the session is also persisted in the conversation state.
  \<^verbatim>\<open>handleMessage\<close> clears the token and the client in the turn state and runs the
  dialog, whose \<^verbatim>\<open>restoreA2AState\<close> reads the persisted copy and puts the same token
  and a client back; nothing ever clears the persisted copy. The turn ends with the
  context it started with.
\<close>

theorem C2_rejected_session_survives:
  "DialogBot_handleMessage signInPrompt reconnect always_ok ''m1'' ctx401
     = (DialogFlow, ctx401,
        [Typing, SendMessageStream \<lparr>messageId = ''m1'', userText = Some ''hello''\<rparr>, SetInterval,
         ClearInterval, Typing, SendMessage \<lparr>messageId = ''m1'', userText = Some ''hello''\<rparr>,
         Send ''Please Sign In''])
   \<and> accessToken ctx401 = Some ''tok''
   \<and> conversationState ctx401 = Some \<lparr>savedAccessToken = Some ''tok'', savedServerUrl = Some ''url''\<rparr>"
  by (simp add: DialogBot_handleMessage_def DialogBot_routeToA2AAgent_def Let_def
        DialogBot_handleStreamingResponse_def afterLoop_def stopTyping_def startStreaming_def
        MainDialog_run_def restoreA2AState_def persistA2AState_def signInPrompt_def reconnect_def
        ctx401_def client401_def is_auth_error_def isDialogCommand_def trim_def trimEnd_def
        white_space_def toLowerCase_def)

section \<open>The two implementations side by side\<close>




























section \<open>Evaluations at concrete inputs\<close>

theorem C9_empty_text_contributes_nothing_witness:
  "textless (Message (Some [TextPart [], TextPart ''b'']))
   \<and> processEvent DialogBot_glyphs always_ok (Message (Some [TextPart [], TextPart ''b'']))
        (startStreaming sp0) = (startStreaming sp0)\<lparr>receivedEvents := True\<rparr>
   \<and> list_all textless [msg [], ArtifactUpdate (Some (art ''a1'' (Some [TextPart []])))]
   \<and> n_sends (effects (afterLoop DialogBot_glyphs always_ok sp0
        [msg [], ArtifactUpdate (Some (art ''a1'' (Some [TextPart []])))])) = 0
   \<and> fst (DialogBot_handleStreamingResponse always_ok sp0
        ([msg [], ArtifactUpdate (Some (art ''a1'' (Some [TextPart []])))], None) (Throws ''x'')) = Inr ()
   \<and> fst (MainDialog_handleStreamingResponse always_ok sp0
        ([msg [], ArtifactUpdate (Some (art ''a1'' (Some [TextPart []])))], None) (Throws ''x'')) = Inr ()"
proof -
  have a: "textless (Message (Some [TextPart [], TextPart ''b'']))" by simp
  have b: "list_all textless [msg [], ArtifactUpdate (Some (art ''a1'' (Some [TextPart []])))]"
    by (simp add: msg_def art_def)
  note T = C9_empty_text_contributes_nothing [of DialogBot_glyphs always_ok "startStreaming sp0"
      "Some [TextPart [], TextPart ''b'']"
      "[msg [], ArtifactUpdate (Some (art ''a1'' (Some [TextPart []])))]" sp0 "Throws ''x''"]
  note e1 = T [THEN conjunct2, THEN conjunct1, THEN mp, OF a]
  note e2 = T [THEN conjunct2, THEN conjunct2, THEN conjunct2, THEN conjunct1, THEN mp, OF b]
  note e3 = T [THEN conjunct2, THEN conjunct2, THEN conjunct2, THEN conjunct2, THEN conjunct1, THEN mp, OF b]
  note e4 = T [THEN conjunct2, THEN conjunct2, THEN conjunct2, THEN conjunct2, THEN conjunct2,
      THEN conjunct1, THEN mp, OF b]
  have f3: "fst (DialogBot_handleStreamingResponse always_ok sp0
        ([msg [], ArtifactUpdate (Some (art ''a1'' (Some [TextPart []])))], None) (Throws ''x'')) = Inr ()"
    by (simp only: e3 fst_conv)
  have f4: "fst (MainDialog_handleStreamingResponse always_ok sp0
        ([msg [], ArtifactUpdate (Some (art ''a1'' (Some [TextPart []])))], None) (Throws ''x'')) = Inr ()"
    by (simp only: e4 fst_conv)
  from a b e1 e2 f3 f4 show ?thesis by blast
qed

theorem C10_other_result_renders_nothing_witness:
  "n_sends (snd (DialogBot_handleRegularResponse sp0 (Result OtherResult))) = 0
   \<and> n_sends (snd (MainDialog_handleRegularResponse sp0 (Result OtherResult))) = 0"
  using C10_other_result_renders_nothing [of sp0 always_ok "[]" "''x''"]
  by simp

end
